theory Spec2Isabelle
  imports Main "HOL-Library.Char_ord" "HOL-Library.List_Lexorder" "HOL-Library.Sublist"
    "HOL-Library.AList"
begin

section \<open>Python values and errors\<close>

text \<open>
  The checkpointer of \<^verbatim>\<open>examples/streaming-tokens-without-langchain.ipynb\<close> (the
  classes \<^verbatim>\<open>JsonAndBinarySerializer\<close> and \<^verbatim>\<open>RedisSaver\<close> and the two connection
  providers) is embedded function by function.

  A Python \<^verbatim>\<open>str\<close> is represented by its UTF-8 bytes, a \<^verbatim>\<open>bytes\<close> object by its
  bytes; both are \<^typ>\<open>string\<close>, whose characters are 8-bit. The encoding keeps
  concatenation, splitting at the ASCII colon and the lexicographic order of code points,
  which is all the checkpointer does with its strings. The order on \<^typ>\<open>string\<close> is the
  lexicographic one on bytes, a proper prefix being smaller, as Python compares.
\<close>

datatype error = ValueError | KeyError | ConnectionError | SerdeError

text \<open>
  A \<^verbatim>\<open>RunnableConfig\<close>, read only at \<^verbatim>\<open>["configurable"]["thread_id"]\<close> and
  \<^verbatim>\<open>["configurable"]["thread_ts"]\<close>; \<^term>\<open>None\<close> is a \<^verbatim>\<open>thread_ts\<close> entry that is
  missing.
\<close>

record RunnableConfig =
  thread_id :: string
  thread_ts :: "string option"

text \<open>
  A \<^verbatim>\<open>Checkpoint\<close> is a dictionary whose entry \<^verbatim>\<open>ts\<close> is a \<^verbatim>\<open>str\<close>; its other
  entries are of no concern to the checkpointer and are kept as one value.
\<close>

record 'c Checkpoint =
  ts :: string
  entries :: 'c

text \<open>
  What \<^verbatim>\<open>dumps\<close> is handed and \<^verbatim>\<open>loads\<close> returns (\<^verbatim>\<open>Any\<close>): a
  \<^verbatim>\<open>bytes\<close>/\<^verbatim>\<open>bytearray\<close> object, a checkpoint, or a \<^verbatim>\<open>CheckpointMetadata\<close>
  value, of a type \<^typ>\<open>'m\<close> left open.
\<close>

datatype ('c, 'm) obj = Bytes string | Ckpt "'c Checkpoint" | Meta 'm

text \<open>
  \<^verbatim>\<open>JsonPlusSerializer\<close> (\<^verbatim>\<open>langgraph.serde.jsonplus\<close>) is imported by the notebook and
  not part of it: \<^verbatim>\<open>super().dumps\<close> and \<^verbatim>\<open>super().loads\<close> are parameters. Either may
  raise, which is \<^term>\<open>Inl\<close>.
\<close>

record ('c, 'm) base_serde =
  super_dumps :: "('c, 'm) obj \<Rightarrow> error + string"
  super_loads :: "string \<Rightarrow> error + ('c, 'm) obj"

section \<open>The codec: \<^verbatim>\<open>JsonAndBinarySerializer\<close>\<close>

definition hexdigits :: string where
  "hexdigits = ''0123456789abcdef''"

text \<open>\<^verbatim>\<open>bytes.hex()\<close>: two lowercase digits for each byte, high nibble first.\<close>

definition hex_of_byte :: "char \<Rightarrow> string" where
  "hex_of_byte c = [hexdigits ! (of_char c div 16), hexdigits ! (of_char c mod 16)]"

definition hex :: "string \<Rightarrow> string" where
  "hex b = concat (map hex_of_byte b)"

text \<open>The value of a hexadecimal digit, of either case.\<close>

definition digit_value :: "char \<Rightarrow> nat option" where
  "digit_value c =
     (let n = (of_char c :: nat) in
      if 48 \<le> n \<and> n \<le> 57 then Some (n - 48)
      else if 97 \<le> n \<and> n \<le> 102 then Some (n - 87)
      else if 65 \<le> n \<and> n \<le> 70 then Some (n - 55)
      else None)"

text \<open>ASCII white space: space, and the characters 9 to 13.\<close>

definition is_space :: "char \<Rightarrow> bool" where
  "is_space c = (let n = (of_char c :: nat) in n = 32 \<or> (9 \<le> n \<and> n \<le> 13))"

text \<open>
  \<^verbatim>\<open>bytes.fromhex(s)\<close>: white space before a pair of digits is skipped; a character
  that is no digit, and a pair cut short, raise \<^verbatim>\<open>ValueError\<close>.
\<close>

fun fromhex :: "string \<Rightarrow> error + string" where
  "fromhex [] = Inr []"
| "fromhex [c] = (if is_space c then Inr [] else Inl ValueError)"
| "fromhex (c # d # cs) =
     (if is_space c then fromhex (d # cs)
      else case digit_value c of
        None \<Rightarrow> Inl ValueError
      | Some hi \<Rightarrow>
          (case digit_value d of
            None \<Rightarrow> Inl ValueError
          | Some lo \<Rightarrow>
              (case fromhex cs of
                Inl e \<Rightarrow> Inl e
              | Inr bs \<Rightarrow> Inr (char_of (hi * 16 + lo) # bs))))"

text \<open>
  \<^verbatim>\<open>dumps\<close>: the hexadecimal text of a bytes object, the base serializer's text of
  anything else. The \<^verbatim>\<open>except\<close> clause logs and raises the same error again.
\<close>

definition dumps :: "('c, 'm) base_serde \<Rightarrow> ('c, 'm) obj \<Rightarrow> error + string" where
  "dumps sd ob = (case ob of Bytes b \<Rightarrow> Inr (hex b) | _ \<Rightarrow> super_dumps sd ob)"

text \<open>\<^verbatim>\<open>loads(s, is_binary)\<close>, \<^verbatim>\<open>is_binary\<close> being \<^verbatim>\<open>False\<close> when not given.\<close>

definition loads :: "('c, 'm) base_serde \<Rightarrow> string \<Rightarrow> bool \<Rightarrow> error + ('c, 'm) obj" where
  "loads sd s is_binary =
     (if is_binary then (case fromhex s of Inl e \<Rightarrow> Inl e | Inr b \<Rightarrow> Inr (Bytes b))
      else super_loads sd s)"

section \<open>The Redis server and its client\<close>

text \<open>
  A hash is a list of fields with their values, a database a list of keys with their
  hashes; a key occurs once. The texts are bytes. \<^verbatim>\<open>KEYS\<close> answers in an order of the
  server's choosing, here the order of the list.
\<close>

type_synonym hash = "(string \<times> string) list"
type_synonym redis = "(string \<times> hash) list"

text \<open>
  The argument of a connection provider: a client or a pool of the blocking library
  (\<^verbatim>\<open>redis.Redis\<close>, \<^verbatim>\<open>redis.ConnectionPool\<close>), a client or a pool of the non-blocking
  one (\<^verbatim>\<open>redis.asyncio\<close>), or anything else, \<^verbatim>\<open>None\<close> included. Neither class of
  one library is a subclass of one of the other.
\<close>

datatype source = SyncRedis nat | SyncPool nat | AsyncRedis nat | AsyncPool nat | NoConnection

text \<open>
  The client a provider hands to its body: the one it was given, or a new client
  \<^verbatim>\<open>Redis(connection_pool=pool)\<close> on the pool it was given.
\<close>

datatype client = Supplied nat | Leased nat

datatype command = HSET | KEYS | HGETALL

datatype event = Sent client command string | Closed client

record world =
  store :: redis
  events :: "event list"

definition sent :: "client \<Rightarrow> command \<Rightarrow> string \<Rightarrow> world \<Rightarrow> world" where
  "sent conn cmd arg w = w\<lparr>events := events w @ [Sent conn cmd arg]\<rparr>"

definition close :: "client \<Rightarrow> world \<Rightarrow> world" where
  "close conn w = w\<lparr>events := events w @ [Closed conn]\<rparr>"

text \<open>
  The patterns of \<^verbatim>\<open>KEYS\<close>: \<^verbatim>\<open>*\<close> stands for any text, \<^verbatim>\<open>?\<close> for one character,
  \<^verbatim>\<open>[...]\<close> for one character of a class (single characters, ranges \<^verbatim>\<open>a-z\<close>,
  \<^verbatim>\<open>^\<close> first to negate), a backslash takes the next character literally.
  \<open>class_match\<close> reads a class up to its \<^verbatim>\<open>]\<close> and returns whether the character
  is in it and the pattern that follows.
\<close>

fun class_match :: "string \<Rightarrow> char \<Rightarrow> bool \<Rightarrow> bool \<times> string" where
  "class_match [] c m = (m, [])"
| "class_match (p # ps) c m =
     (if p = CHR '']'' then (m, ps)
      else if p = CHR 0x5C \<and> ps \<noteq> [] then class_match (tl ps) c (m \<or> hd ps = c)
      else if 2 \<le> length ps \<and> hd ps = CHR ''-''
        then class_match (tl (tl ps)) c (m \<or> (min p (ps ! 1) \<le> c \<and> c \<le> max p (ps ! 1)))
      else class_match ps c (m \<or> p = c))"

lemma class_match_length: "length (snd (class_match ps c m)) \<le> length ps"
proof (induction ps c m rule: class_match.induct)
  case (1 c m)
  show ?case by simp
next
  case (2 p ps c m)
  then show ?case by (cases ps; cases "tl ps") (auto split: if_splits)
qed

function glob_match :: "string \<Rightarrow> string \<Rightarrow> bool" where
  "glob_match [] s = (s = [])"
| "glob_match (p # ps) [] = (p = CHR ''*'' \<and> glob_match ps [])"
| "glob_match (p # ps) (c # cs) =
     (if p = CHR ''*'' then glob_match ps (c # cs) \<or> glob_match (p # ps) cs
      else if p = CHR ''?'' then glob_match ps cs
      else if p = CHR ''[''
        then (let body = (if ps \<noteq> [] \<and> hd ps = CHR ''^'' then tl ps else ps);
                  found = class_match body c False
              in (fst found \<noteq> (ps \<noteq> [] \<and> hd ps = CHR ''^'')) \<and> glob_match (snd found) cs)
      else if p = CHR 0x5C \<and> ps \<noteq> [] then hd ps = c \<and> glob_match (tl ps) cs
      else p = c \<and> glob_match ps cs)"
  by pat_completeness auto
termination
proof (relation "measure (\<lambda>(p, s). length p + length s)")
  fix p :: char and ps :: string and c :: char and cs :: string and body found
  assume "body = (if ps \<noteq> [] \<and> hd ps = CHR ''^'' then tl ps else ps)"
    and "found = class_match body c False"
  then have "length (snd found) \<le> length ps"
    using class_match_length [of body c False] by (auto split: if_splits)
  then show "((snd found, cs), p # ps, c # cs) \<in> measure (\<lambda>(p, s). length p + length s)"
    by simp
qed auto

text \<open>
  The three commands the checkpointer sends. \<^verbatim>\<open>HSET key f v ...\<close> sets the fields it
  names in the hash at \<open>key\<close>, which it creates when there is none, and keeps the
  others. \<^verbatim>\<open>HGETALL\<close> of a key that does not exist is the empty hash. The server is taken
  to answer every command.
\<close>

definition hset :: "client \<Rightarrow> string \<Rightarrow> hash \<Rightarrow> world \<Rightarrow> world" where
  "hset conn key mapping w =
     (let old = (case map_of (store w) key of None \<Rightarrow> [] | Some h \<Rightarrow> h);
          new = fold (\<lambda>(f, v). AList.update f v) mapping old
      in sent conn HSET key (w\<lparr>store := AList.update key new (store w)\<rparr>))"

definition keys :: "client \<Rightarrow> string \<Rightarrow> world \<Rightarrow> string list \<times> world" where
  "keys conn pattern w = (filter (glob_match pattern) (map fst (store w)), sent conn KEYS pattern w)"

text \<open>
  The client answers in bytes (\<^verbatim>\<open>decode_responses\<close> is off, or the \<^verbatim>\<open>.decode()\<close> calls
  of the checkpointer would fail): the dictionary that \<^verbatim>\<open>hgetall\<close> returns has
  \<^verbatim>\<open>bytes\<close> objects for its keys. A key of a Python dictionary is looked up by equality,
  and no \<^verbatim>\<open>str\<close> equals a \<^verbatim>\<open>bytes\<close> object.
\<close>

datatype pykey = KStr string | KBytes string

type_synonym pydict = "(pykey \<times> string) list"

definition hgetall :: "client \<Rightarrow> string \<Rightarrow> world \<Rightarrow> pydict \<times> world" where
  "hgetall conn key w =
     (map (\<lambda>(f, v). (KBytes f, v)) (case map_of (store w) key of None \<Rightarrow> [] | Some h \<Rightarrow> h),
      sent conn HGETALL key w)"

text \<open>\<^verbatim>\<open>d[k]\<close>, \<^verbatim>\<open>k in d\<close> and \<^verbatim>\<open>d.get(k, default)\<close>.\<close>

definition subscript :: "pydict \<Rightarrow> pykey \<Rightarrow> error + string" where
  "subscript d k = (case map_of d k of None \<Rightarrow> Inl KeyError | Some v \<Rightarrow> Inr v)"

definition contains :: "pydict \<Rightarrow> pykey \<Rightarrow> bool" where
  "contains d k = (map_of d k \<noteq> None)"

definition dict_get :: "pydict \<Rightarrow> pykey \<Rightarrow> string \<Rightarrow> string" where
  "dict_get d k dflt = (case map_of d k of None \<Rightarrow> dflt | Some v \<Rightarrow> v)"

section \<open>The connection providers\<close>

text \<open>
  \<^verbatim>\<open>_get_sync_connection\<close> around the body of a \<^verbatim>\<open>with\<close> block. The body returns or
  raises; what it raises passes through the \<^verbatim>\<open>except\<close> clause (which logs a
  \<^verbatim>\<open>ConnectionError\<close> and raises it again) and the \<^verbatim>\<open>finally\<close> clause, which closes
  \<open>conn\<close> when it was set, that is for a pool.
\<close>

definition get_sync_connection ::
  "source \<Rightarrow> (client \<Rightarrow> world \<Rightarrow> (error + 'a) \<times> world) \<Rightarrow> world \<Rightarrow> (error + 'a) \<times> world" where
  "get_sync_connection connection body w =
     (case connection of
        SyncRedis c \<Rightarrow> body (Supplied c) w
      | SyncPool p \<Rightarrow> (case body (Leased p) w of (r, w') \<Rightarrow> (r, close (Leased p) w'))
      | _ \<Rightarrow> (Inl ValueError, w))"

definition get_async_connection ::
  "source \<Rightarrow> (client \<Rightarrow> world \<Rightarrow> (error + 'a) \<times> world) \<Rightarrow> world \<Rightarrow> (error + 'a) \<times> world" where
  "get_async_connection connection body w =
     (case connection of
        AsyncRedis c \<Rightarrow> body (Supplied c) w
      | AsyncPool p \<Rightarrow> (case body (Leased p) w of (r, w') \<Rightarrow> (r, close (Leased p) w'))
      | _ \<Rightarrow> (Inl ValueError, w))"

section \<open>The checkpoint saver: \<^verbatim>\<open>RedisSaver\<close>\<close>

record ('c, 'm) RedisSaver =
  serde :: "('c, 'm) base_serde"
  sync_connection :: source
  async_connection :: source

record ('c, 'm) CheckpointTuple =
  config :: RunnableConfig
  checkpoint :: "('c, 'm) obj"
  metadata :: "('c, 'm) obj"
  parent_config :: "RunnableConfig option"

text \<open>\<^verbatim>\<open>f"checkpoint:{thread_id}:{version}"\<close>.\<close>

definition checkpoint_key :: "string \<Rightarrow> string \<Rightarrow> string" where
  "checkpoint_key tid version = ''checkpoint:'' @ tid @ '':'' @ version"

text \<open>\<^verbatim>\<open>k.decode().split(":")[-1]\<close>: what follows the last colon, all of \<open>k\<close> without one.\<close>

definition last_segment :: "string \<Rightarrow> string" where
  "last_segment k = rev (takeWhile (\<lambda>c. c \<noteq> CHR '':'') (rev k))"

text \<open>
  \<^verbatim>\<open>max(xs, key=f)\<close> on a list that is not empty: the first of the elements whose key is
  greatest.
\<close>

definition max_by :: "('a \<Rightarrow> 'b::linorder) \<Rightarrow> 'a \<Rightarrow> 'a list \<Rightarrow> 'a" where
  "max_by f x xs = foldl (\<lambda>best y. if f best < f y then y else best) x xs"

text \<open>
  \<^verbatim>\<open>sorted(xs, key=f, reverse=True)\<close>: a stable sort of the reversed list, reversed, so
  that elements of equal keys keep their order.
\<close>

definition sorted_reverse :: "('a \<Rightarrow> 'b::linorder) \<Rightarrow> 'a list \<Rightarrow> 'a list" where
  "sorted_reverse f xs = rev (sort_key f (rev xs))"

text \<open>\<^verbatim>\<open>xs[:n]\<close>, a negative \<open>n\<close> counting from the end.\<close>

definition slice_to :: "int \<Rightarrow> 'a list \<Rightarrow> 'a list" where
  "slice_to n xs = (if 0 \<le> n then take (nat n) xs else take (nat (int (length xs) + n)) xs)"

subsection \<open>\<^verbatim>\<open>put\<close> and \<^verbatim>\<open>aput\<close>\<close>

text \<open>
  The body of the \<^verbatim>\<open>with\<close> block: one \<^verbatim>\<open>hset\<close> with the three fields. The field
  \<^verbatim>\<open>parent_ts\<close> is \<^verbatim>\<open>parent_ts if parent_ts else ""\<close>, the empty text for \<^verbatim>\<open>None\<close>.
\<close>

definition put_commands ::
  "('c, 'm) RedisSaver \<Rightarrow> string \<Rightarrow> string option \<Rightarrow> 'c Checkpoint \<Rightarrow> 'm \<Rightarrow> client \<Rightarrow> world
     \<Rightarrow> (error + unit) \<times> world" where
  "put_commands self key parent_ts ckpt meta conn w =
     (case dumps (serde self) (Ckpt ckpt) of
        Inl e \<Rightarrow> (Inl e, w)
      | Inr c \<Rightarrow>
          (case dumps (serde self) (Meta meta) of
             Inl e \<Rightarrow> (Inl e, w)
           | Inr m \<Rightarrow>
               (Inr (), hset conn key
                  [(''checkpoint'', c), (''metadata'', m),
                   (''parent_ts'', case parent_ts of None \<Rightarrow> [] | Some p \<Rightarrow> p)] w)))"

definition put ::
  "('c, 'm) RedisSaver \<Rightarrow> RunnableConfig \<Rightarrow> 'c Checkpoint \<Rightarrow> 'm \<Rightarrow> world
     \<Rightarrow> (error + RunnableConfig) \<times> world" where
  "put self cfg ckpt meta w =
     (let tid = thread_id cfg;
          parent_ts = thread_ts cfg;
          key = checkpoint_key tid (ts ckpt)
      in case get_sync_connection (sync_connection self)
                (put_commands self key parent_ts ckpt meta) w of
           (Inl e, w') \<Rightarrow> (Inl e, w')
         | (Inr u, w') \<Rightarrow> (Inr \<lparr>thread_id = tid, thread_ts = Some (ts ckpt)\<rparr>, w'))"

definition aput ::
  "('c, 'm) RedisSaver \<Rightarrow> RunnableConfig \<Rightarrow> 'c Checkpoint \<Rightarrow> 'm \<Rightarrow> world
     \<Rightarrow> (error + RunnableConfig) \<times> world" where
  "aput self cfg ckpt meta w =
     (let tid = thread_id cfg;
          parent_ts = thread_ts cfg;
          key = checkpoint_key tid (ts ckpt)
      in case get_async_connection (async_connection self)
                (put_commands self key parent_ts ckpt meta) w of
           (Inl e, w') \<Rightarrow> (Inl e, w')
         | (Inr u, w') \<Rightarrow> (Inr \<lparr>thread_id = tid, thread_ts = Some (ts ckpt)\<rparr>, w'))"

subsection \<open>\<^verbatim>\<open>get_tuple\<close> and \<^verbatim>\<open>aget_tuple\<close>\<close>

text \<open>
  The key to read: the one of \<^verbatim>\<open>thread_ts\<close> when that is given and not empty
  (\<^verbatim>\<open>if thread_ts\<close> is false for \<^verbatim>\<open>None\<close> and for the empty text), else the first
  key of the thread whose last segment is greatest; \<^term>\<open>None\<close> when the thread has
  no key, where \<^verbatim>\<open>get_tuple\<close> returns \<^verbatim>\<open>None\<close>.
\<close>

definition latest_key :: "string \<Rightarrow> client \<Rightarrow> world \<Rightarrow> string option \<times> world" where
  "latest_key tid conn w =
     (case keys conn (checkpoint_key tid ''*'') w of
        (all_keys, w1) \<Rightarrow>
          (case all_keys of
             [] \<Rightarrow> (None, w1)
           | k # ks \<Rightarrow> (Some (max_by last_segment k ks), w1)))"

definition key_to_read ::
  "RunnableConfig \<Rightarrow> client \<Rightarrow> world \<Rightarrow> string option \<times> world" where
  "key_to_read cfg conn w =
     (case thread_ts cfg of
        None \<Rightarrow> latest_key (thread_id cfg) conn w
      | Some v \<Rightarrow>
          if v \<noteq> [] then (Some (checkpoint_key (thread_id cfg) v), w)
          else latest_key (thread_id cfg) conn w)"

definition get_tuple_commands ::
  "('c, 'm) RedisSaver \<Rightarrow> RunnableConfig \<Rightarrow> client \<Rightarrow> world
     \<Rightarrow> (error + ('c, 'm) CheckpointTuple option) \<times> world" where
  "get_tuple_commands self cfg conn w =
     (case key_to_read cfg conn w of
        (None, w1) \<Rightarrow> (Inr None, w1)
      | (Some key, w1) \<Rightarrow>
          (case hgetall conn key w1 of
             (checkpoint_data, w2) \<Rightarrow>
               if checkpoint_data = [] then (Inr None, w2)
               else case subscript checkpoint_data (KBytes ''checkpoint'') of
                 Inl e \<Rightarrow> (Inl e, w2)
               | Inr c \<Rightarrow>
               (case loads (serde self) c False of
                 Inl e \<Rightarrow> (Inl e, w2)
               | Inr ckpt \<Rightarrow>
               (case subscript checkpoint_data (KBytes ''metadata'') of
                 Inl e \<Rightarrow> (Inl e, w2)
               | Inr m \<Rightarrow>
               (case loads (serde self) m False of
                 Inl e \<Rightarrow> (Inl e, w2)
               | Inr meta \<Rightarrow>
                   (let parent_ts = dict_get checkpoint_data (KBytes ''parent_ts'') []
                    in (Inr (Some \<lparr>config = cfg, checkpoint = ckpt, metadata = meta,
                          parent_config =
                            (if parent_ts \<noteq> []
                             then Some \<lparr>thread_id = thread_id cfg, thread_ts = Some parent_ts\<rparr>
                             else None)\<rparr>), w2)))))))"

definition get_tuple ::
  "('c, 'm) RedisSaver \<Rightarrow> RunnableConfig \<Rightarrow> world
     \<Rightarrow> (error + ('c, 'm) CheckpointTuple option) \<times> world" where
  "get_tuple self cfg w =
     get_sync_connection (sync_connection self) (get_tuple_commands self cfg) w"

definition aget_tuple ::
  "('c, 'm) RedisSaver \<Rightarrow> RunnableConfig \<Rightarrow> world
     \<Rightarrow> (error + ('c, 'm) CheckpointTuple option) \<times> world" where
  "aget_tuple self cfg w =
     get_async_connection (async_connection self) (get_tuple_commands self cfg) w"

subsection \<open>\<^verbatim>\<open>list\<close> and \<^verbatim>\<open>alist\<close>\<close>

text \<open>
  The generators are run to their end: the result is the list of the tuples yielded, or
  the error raised on the way. \<open>list_item\<close> is one turn of the loop over the keys: it
  reads the hash and tests it with \<^verbatim>\<open>"checkpoint" in data and "metadata" in data\<close>,
  the keys being \<^verbatim>\<open>str\<close> objects; it yields a tuple (\<^term>\<open>Some\<close>), skips the key
  (\<^term>\<open>None\<close>) or raises.
\<close>

definition list_item ::
  "('c, 'm) RedisSaver \<Rightarrow> string \<Rightarrow> client \<Rightarrow> string \<Rightarrow> world
     \<Rightarrow> (error + ('c, 'm) CheckpointTuple option) \<times> world" where
  "list_item self tid conn key w =
     (case hgetall conn key w of
        (data, w1) \<Rightarrow>
          if data \<noteq> [] \<and> contains data (KStr ''checkpoint'') \<and> contains data (KStr ''metadata'')
          then
            (case subscript data (KStr ''checkpoint'') of
               Inl e \<Rightarrow> (Inl e, w1)
             | Inr c \<Rightarrow>
             (case loads (serde self) c False of
               Inl e \<Rightarrow> (Inl e, w1)
             | Inr ckpt \<Rightarrow>
             (case subscript data (KStr ''metadata'') of
               Inl e \<Rightarrow> (Inl e, w1)
             | Inr m \<Rightarrow>
             (case loads (serde self) m False of
               Inl e \<Rightarrow> (Inl e, w1)
             | Inr meta \<Rightarrow>
                 (let parent_ts = dict_get data (KStr ''parent_ts'') []
                  in (Inr (Some
                        \<lparr>config = \<lparr>thread_id = tid, thread_ts = Some (last_segment key)\<rparr>,
                         checkpoint = ckpt, metadata = meta,
                         parent_config =
                           (if parent_ts \<noteq> []
                            then Some \<lparr>thread_id = tid, thread_ts = Some parent_ts\<rparr>
                            else None)\<rparr>), w1))))))
          else (Inr None, w1))"

fun list_loop ::
  "('c, 'm) RedisSaver \<Rightarrow> string \<Rightarrow> client \<Rightarrow> string list \<Rightarrow> world
     \<Rightarrow> (error + ('c, 'm) CheckpointTuple list) \<times> world" where
  "list_loop self tid conn [] w = (Inr [], w)"
| "list_loop self tid conn (key # rest) w =
     (case list_item self tid conn key w of
        (Inl e, w1) \<Rightarrow> (Inl e, w1)
      | (Inr None, w1) \<Rightarrow> list_loop self tid conn rest w1
      | (Inr (Some t), w1) \<Rightarrow>
          (case list_loop self tid conn rest w1 of
             (Inl e, w2) \<Rightarrow> (Inl e, w2)
           | (Inr tuples, w2) \<Rightarrow> (Inr (t # tuples), w2)))"

text \<open>
  The \<^verbatim>\<open>before\<close> filter: \<^verbatim>\<open>before["configurable"]["thread_ts"]\<close> is looked up for each
  key, and raises \<^verbatim>\<open>KeyError\<close> when it is missing and there is a key.
\<close>

definition before_filter :: "RunnableConfig \<Rightarrow> string list \<Rightarrow> error + string list" where
  "before_filter before ks =
     (if ks = [] then Inr []
      else case thread_ts before of
             None \<Rightarrow> Inl KeyError
           | Some b \<Rightarrow> Inr (filter (\<lambda>k. last_segment k < b) ks))"

definition list_commands ::
  "('c, 'm) RedisSaver \<Rightarrow> string \<Rightarrow> RunnableConfig option \<Rightarrow> int option \<Rightarrow> client \<Rightarrow> world
     \<Rightarrow> (error + ('c, 'm) CheckpointTuple list) \<times> world" where
  "list_commands self tid before limit conn w =
     (case keys conn (checkpoint_key tid ''*'') w of
        (ks, w1) \<Rightarrow>
          (case (case before of None \<Rightarrow> Inr ks | Some b \<Rightarrow> before_filter b ks) of
             Inl e \<Rightarrow> (Inl e, w1)
           | Inr ks1 \<Rightarrow>
               (let ks2 = sorted_reverse last_segment ks1;
                    ks3 = (case limit of
                             None \<Rightarrow> ks2
                           | Some n \<Rightarrow> if n = 0 then ks2 else slice_to n ks2)
                in list_loop self tid conn ks3 w1)))"

text \<open>
  \<^verbatim>\<open>list\<close>, with its parameters \<^verbatim>\<open>config\<close>, \<^verbatim>\<open>filter\<close>, \<^verbatim>\<open>before\<close> and \<^verbatim>\<open>limit\<close>;
  the thread is \<^verbatim>\<open>"*"\<close> without a \<^verbatim>\<open>config\<close>.
\<close>

definition list_tuples ::
  "('c, 'm) RedisSaver \<Rightarrow> RunnableConfig option \<Rightarrow> 'f option \<Rightarrow> RunnableConfig option
     \<Rightarrow> int option \<Rightarrow> world \<Rightarrow> (error + ('c, 'm) CheckpointTuple list) \<times> world" where
  "list_tuples self cfg flt before limit w =
     (let tid = (case cfg of None \<Rightarrow> ''*'' | Some c \<Rightarrow> thread_id c)
      in get_sync_connection (sync_connection self) (list_commands self tid before limit) w)"

definition alist_tuples ::
  "('c, 'm) RedisSaver \<Rightarrow> RunnableConfig option \<Rightarrow> 'f option \<Rightarrow> RunnableConfig option
     \<Rightarrow> int option \<Rightarrow> world \<Rightarrow> (error + ('c, 'm) CheckpointTuple list) \<times> world" where
  "alist_tuples self cfg flt before limit w =
     (let tid = (case cfg of None \<Rightarrow> ''*'' | Some c \<Rightarrow> thread_id c)
      in get_async_connection (async_connection self) (list_commands self tid before limit) w)"

section \<open>Auxiliary notions of the statements\<close>

text \<open>The sources a provider accepts: the two classes of its own library.\<close>

definition accepted_sync :: "source \<Rightarrow> bool" where
  "accepted_sync src = (case src of SyncRedis c \<Rightarrow> True | SyncPool p \<Rightarrow> True | _ \<Rightarrow> False)"

definition accepted_async :: "source \<Rightarrow> bool" where
  "accepted_async src = (case src of AsyncRedis c \<Rightarrow> True | AsyncPool p \<Rightarrow> True | _ \<Rightarrow> False)"

text \<open>
  A base serializer that round-trips, for the examples: a checkpoint without further
  entries is written as \<^verbatim>\<open>C\<close> and its \<open>ts\<close>, a metadata text as \<^verbatim>\<open>M\<close> and the text.
\<close>

definition tagged_serde :: "(unit, string) base_serde" where
  "tagged_serde =
     \<lparr>super_dumps = (\<lambda>ob. case ob of
          Bytes b \<Rightarrow> Inl SerdeError
        | Ckpt c \<Rightarrow> Inr (CHR ''C'' # ts c)
        | Meta m \<Rightarrow> Inr (CHR ''M'' # m)),
      super_loads = (\<lambda>s. case s of
          [] \<Rightarrow> Inl SerdeError
        | x # r \<Rightarrow>
            if x = CHR ''C'' then Inr (Ckpt \<lparr>ts = r, entries = ()\<rparr>)
            else if x = CHR ''M'' then Inr (Meta r)
            else Inl SerdeError)\<rparr>"

definition saver :: "source \<Rightarrow> (unit, string) RedisSaver" where
  "saver src = \<lparr>serde = tagged_serde, sync_connection = src, async_connection = src\<rparr>"

definition empty_world :: world where
  "empty_world = \<lparr>store = [], events = []\<rparr>"

section \<open>The codec on byte sequences\<close>

lemma hexdigits_all:
  "list_all (\<lambda>n. hexdigits ! n \<in> set hexdigits \<and> digit_value (hexdigits ! n) = Some n
      \<and> \<not> is_space (hexdigits ! n)) [0..<16]"
  by (simp add: upt_rec hexdigits_def digit_value_def is_space_def)

lemma hexdigits_nth:
  "n < 16 \<Longrightarrow> hexdigits ! n \<in> set hexdigits \<and> digit_value (hexdigits ! n) = Some n
      \<and> \<not> is_space (hexdigits ! n)"
  using hexdigits_all by (simp add: list_all_iff)

lemmas hexdigits_nth_in = hexdigits_nth [THEN conjunct1]
lemmas digit_value_hexdigit = hexdigits_nth [THEN conjunct2, THEN conjunct1]
lemmas hexdigit_not_space = hexdigits_nth [THEN conjunct2, THEN conjunct2]

lemma of_char_div_16: "(of_char c :: nat) div 16 < 16"
proof -
  have "(of_char c :: nat) < 16 * 16" by simp
  then show ?thesis by (rule less_mult_imp_div_less)
qed

lemma char_of_nibbles: "char_of ((of_char c :: nat) div 16 * 16 + of_char c mod 16) = c"
  by simp

lemma hex_chars: "set (hex b) \<subseteq> set hexdigits"
  by (induction b) (auto simp: hex_def hex_of_byte_def of_char_div_16 hexdigits_nth_in)

lemma length_hex: "length (hex b) = 2 * length b"
  by (induction b) (simp_all add: hex_def hex_of_byte_def)

lemma fromhex_hex: "fromhex (hex b) = Inr b"
proof (induction b)
  case Nil
  show ?case by (simp add: hex_def)
next
  case (Cons c b)
  have "hex (c # b) = hexdigits ! (of_char c div 16) # hexdigits ! (of_char c mod 16) # hex b"
    by (simp add: hex_def hex_of_byte_def)
  with Cons show ?case
    by (simp add: hexdigit_not_space digit_value_hexdigit of_char_div_16 char_of_nibbles)
qed

text \<open>
  C6. For every byte sequence \<open>b\<close>, \<^verbatim>\<open>dumps(b)\<close> returns a text made of the characters
  \<^verbatim>\<open>0123456789abcdef\<close> only (so with no prefix), two for each byte, and
  \<^verbatim>\<open>loads(dumps(b), is_binary=True)\<close> returns \<open>b\<close>.
\<close>

theorem dumps_bytes_hex_roundtrip:
  "\<exists>s. dumps sd (Bytes b) = Inr s \<and> set s \<subseteq> set ''0123456789abcdef''
     \<and> length s = 2 * length b \<and> loads sd s True = Inr (Bytes b)"
proof -
  have "set (hex b) \<subseteq> set ''0123456789abcdef''"
    using hex_chars [of b] by (simp add: hexdigits_def)
  then show ?thesis
    by (simp add: dumps_def loads_def fromhex_hex length_hex)
qed

section \<open>The connection providers: scope and errors\<close>

text \<open>
  C7. Both providers, for every body and every state: on a pool the body runs with a
  leased client, its outcome (a value or an error) is passed on, and the one thing the
  provider adds is the closing of that client, after the body, whether the body returned
  or raised; on a client supplied directly the provider is the body and nothing more, so
  it closes nothing.
\<close>

theorem provider_closes_leased_only:
  "fst (get_sync_connection (SyncPool p) body w) = fst (body (Leased p) w)
   \<and> store (snd (get_sync_connection (SyncPool p) body w)) = store (snd (body (Leased p) w))
   \<and> events (snd (get_sync_connection (SyncPool p) body w))
       = events (snd (body (Leased p) w)) @ [Closed (Leased p)]
   \<and> get_sync_connection (SyncRedis c) body w = body (Supplied c) w
   \<and> fst (get_async_connection (AsyncPool p) body w) = fst (body (Leased p) w)
   \<and> store (snd (get_async_connection (AsyncPool p) body w)) = store (snd (body (Leased p) w))
   \<and> events (snd (get_async_connection (AsyncPool p) body w))
       = events (snd (body (Leased p) w)) @ [Closed (Leased p)]
   \<and> get_async_connection (AsyncRedis c) body w = body (Supplied c) w"
  by (simp add: get_sync_connection_def get_async_connection_def close_def split: prod.split)

text \<open>
  C8. A source that is neither a client nor a pool of the provider's library (\<^verbatim>\<open>None\<close>,
  say) makes the provider raise \<^verbatim>\<open>ValueError\<close> without running the body, and so each
  operation of the saver raises it and leaves the state as it was: the store is not
  touched and no command is sent.
\<close>

theorem invalid_source_raises_before_commands:
  "(\<not> accepted_sync src \<longrightarrow>
      get_sync_connection src body w = (Inl ValueError, w)
      \<and> put (self\<lparr>sync_connection := src\<rparr>) cfg ckpt meta w = (Inl ValueError, w)
      \<and> get_tuple (self\<lparr>sync_connection := src\<rparr>) cfg w = (Inl ValueError, w)
      \<and> list_tuples (self\<lparr>sync_connection := src\<rparr>) cfg' flt before limit w = (Inl ValueError, w))
   \<and> (\<not> accepted_async src \<longrightarrow>
      get_async_connection src body w = (Inl ValueError, w)
      \<and> aput (self\<lparr>async_connection := src\<rparr>) cfg ckpt meta w = (Inl ValueError, w)
      \<and> aget_tuple (self\<lparr>async_connection := src\<rparr>) cfg w = (Inl ValueError, w)
      \<and> alist_tuples (self\<lparr>async_connection := src\<rparr>) cfg' flt before limit w = (Inl ValueError, w))"
  by (cases src)
     (simp_all add: accepted_sync_def accepted_async_def get_sync_connection_def
        get_async_connection_def put_def aput_def get_tuple_def aget_tuple_def
        list_tuples_def alist_tuples_def)

theorem invalid_source_raises_before_commands_witness:
  "\<not> accepted_sync NoConnection \<and> \<not> accepted_async NoConnection
   \<and> put (saver NoConnection) \<lparr>thread_id = ''t'', thread_ts = None\<rparr>
        \<lparr>ts = ''v1'', entries = ()\<rparr> ''m'' empty_world = (Inl ValueError, empty_world)
   \<and> aget_tuple (saver NoConnection) \<lparr>thread_id = ''t'', thread_ts = None\<rparr> empty_world
        = (Inl ValueError, empty_world)"
proof -
  have a: "\<not> accepted_sync NoConnection" and b: "\<not> accepted_async NoConnection"
    by (simp_all add: accepted_sync_def accepted_async_def)
  have s: "saver NoConnection = (saver NoConnection)\<lparr>sync_connection := NoConnection\<rparr>"
    and t: "saver NoConnection = (saver NoConnection)\<lparr>async_connection := NoConnection\<rparr>"
    by (simp_all add: saver_def)
  from a b show ?thesis
    using invalid_source_raises_before_commands
      [of NoConnection "\<lambda>conn w. (Inr (), w)" empty_world "saver NoConnection"
        "\<lparr>thread_id = ''t'', thread_ts = None\<rparr>" "\<lparr>ts = ''v1'', entries = ()\<rparr>" "''m''"
        None "None :: unit option" None None]
    by (simp add: s [symmetric] t [symmetric])
qed

section \<open>The \<^verbatim>\<open>filter\<close> parameter\<close>

text \<open>
  C10. \<^verbatim>\<open>list\<close> and \<^verbatim>\<open>alist\<close> do not look at their \<^verbatim>\<open>filter\<close> argument: with any
  filter they return, and leave the state, as with none.
\<close>

theorem list_ignores_filter:
  "list_tuples self cfg flt before limit w = list_tuples self cfg None before limit w
   \<and> alist_tuples self cfg flt before limit w = alist_tuples self cfg None before limit w"
  by (simp add: list_tuples_def alist_tuples_def)

end
